theory Spec2Isabelle
  imports Main "HOL-Library.Finite_Map"
begin

section \<open>The reconciliation loop of external-lb (main.go)\<close>

text \<open>
  The development embeds the body of the \<^verbatim>\<open>for range ticker.C\<close> loop of
  \<^verbatim>\<open>main\<close> (main.go, lines 96 to 154) as a function \<open>tick\<close> from the loop's
  variables before a tick to the calls and log lines the tick makes and the variables
  after it. The collaborators the loop calls (the metadata client, the provider dispatch
  \<^verbatim>\<open>UpdateProviderLBConfigs\<close>, the Cattle client and the clock) are parameters of a
  tick: what each of them answers during that tick.
\<close>

subsection \<open>Data\<close>

text \<open>
  A Go slice is \<^verbatim>\<open>nil\<close> or holds a sequence of elements. \<^verbatim>\<open>range\<close> over a nil
  slice runs no iteration, but \<^verbatim>\<open>reflect.DeepEqual\<close> tells a nil slice from an empty
  one.
\<close>

datatype 'a slice = NilSlice | Slice "'a list"

fun elems :: "'a slice \<Rightarrow> 'a list" where
  "elems NilSlice = []"
| "elems (Slice xs) = xs"

text \<open>
  Modelled from the spec: the types \<^verbatim>\<open>model.LBConfig\<close>, its frontends and its target
  pools are declared in the package \<^verbatim>\<open>model\<close>, outside main.go. The records hold the
  fields main.go reads (\<^verbatim>\<open>config.Frontends\<close>, \<^verbatim>\<open>fe.TargetPools\<close>, \<^verbatim>\<open>tp.Name\<close>),
  which are the fields the specification's data model lists.
\<close>

record TargetPool =
  Name :: string

record Frontend =
  TargetPools :: "TargetPool slice"

record LBConfig =
  Frontends :: "Frontend slice"

text \<open>
  A value of type \<^verbatim>\<open>map[string]model.LBConfig\<close> is \<^verbatim>\<open>nil\<close> or a finite map.
\<close>

datatype Snapshot = NilMap | GoMap "(string, LBConfig) fmap"

text \<open>
  \<^verbatim>\<open>reflect.DeepEqual\<close> on two such maps: both nil or both non-nil, with the same keys
  bound to deeply equal values; structs are compared field by field, slices are both nil
  or both non-nil and equal element by element, strings by \<^verbatim>\<open>==\<close>. On the types above
  this is equality of the values.
\<close>

definition DeepEqual :: "Snapshot \<Rightarrow> Snapshot \<Rightarrow> bool" where
  "DeepEqual x y = (x = y)"

type_synonym error = string

text \<open>Time in nanoseconds, as \<^verbatim>\<open>time.Duration\<close> counts it.\<close>

type_synonym time = int

definition Minute :: int where
  "Minute = 60 * 1000000000"

definition forceUpdateInterval :: int where
  "forceUpdateInterval = 1"

text \<open>
  \<^verbatim>\<open>time.Since(lastUpdated).Minutes() >= forceUpdateInterval\<close>. \<^verbatim>\<open>Minutes\<close> returns
  the whole minutes of the duration plus its remaining nanoseconds divided by those of a
  minute, which is at least 1 exactly when the duration is at least one minute.
\<close>

definition force_due :: "time \<Rightarrow> time \<Rightarrow> bool" where
  "force_due now lastUpd = (forceUpdateInterval * Minute \<le> now - lastUpd)"

subsection \<open>The loop's variables, the collaborators and the trace\<close>

text \<open>
  The variables that live across ticks: \<^verbatim>\<open>version\<close> and \<^verbatim>\<open>lastUpdated\<close> (locals of
  \<^verbatim>\<open>main\<close>) and the package variable \<^verbatim>\<open>metadataLBConfigsCached\<close>.
\<close>

record state =
  version :: string
  lastUpdated :: time
  metadataLBConfigsCached :: Snapshot

text \<open>
  Lines 90, 91 and 32: the variables before the first tick, for a process started at
  time \<open>t0\<close>.
\<close>

definition init_state :: "time \<Rightarrow> state" where
  "init_state t0 =
     \<lparr>version = ''init'', lastUpdated = t0, metadataLBConfigsCached = GoMap fmempty\<rparr>"

text \<open>
  What the collaborators answer during one tick. \<open>GetVersion\<close> and
  \<open>GetMetadataLBConfigs\<close> are the results of the two metadata calls (\<open>Inl\<close> the error).
  \<open>UpdateProviderLBConfigs\<close> is the provider dispatch, a function of this repository
  that is not in main.go: it returns the map of updated FQDNs together with an error or
  nil. The map is given as the list of its entries in the order in which the
  \<^verbatim>\<open>range\<close> statement of line 135 visits them (Go leaves that order open).
  \<open>UpdateServiceFqdn\<close> is the Cattle client's answer to a write-back call, taken
  as a function of the call's arguments; the answer decides a log line and nothing else.
  \<open>now_check\<close> is the clock as \<^verbatim>\<open>time.Since\<close> reads it on line 106, \<open>now_done\<close>
  as \<^verbatim>\<open>time.Now\<close> reads it on line 149.
\<close>

record env =
  GetVersion :: "error + string"
  GetMetadataLBConfigs :: "error + Snapshot"
  UpdateProviderLBConfigs :: "Snapshot \<Rightarrow> (string \<times> LBConfig) list \<times> error option"
  UpdateServiceFqdn :: "string \<Rightarrow> string \<Rightarrow> string \<Rightarrow> error option"
  now_check :: time
  now_done :: time

text \<open>The calls to collaborators and the log lines, in the order a tick makes them.\<close>

datatype event =
    Call_GetVersion
  | Call_GetMetadataLBConfigs
  | Call_UpdateProviderLBConfigs Snapshot
  | Call_UpdateServiceFqdn string string string
  | Errorf string error
  | Debugf string

fun provider_calls :: "event list \<Rightarrow> Snapshot list" where
  "provider_calls [] = []"
| "provider_calls (Call_UpdateProviderLBConfigs cfgs # evs) = cfgs # provider_calls evs"
| "provider_calls (_ # evs) = provider_calls evs"

fun writer_calls :: "event list \<Rightarrow> (string \<times> string \<times> string) list" where
  "writer_calls [] = []"
| "writer_calls (Call_UpdateServiceFqdn a b fqdn # evs) = (a, b, fqdn) # writer_calls evs"
| "writer_calls (_ # evs) = writer_calls evs"

fun snapshot_fetches :: "event list \<Rightarrow> nat" where
  "snapshot_fetches [] = 0"
| "snapshot_fetches (Call_GetMetadataLBConfigs # evs) = Suc (snapshot_fetches evs)"
| "snapshot_fetches (_ # evs) = snapshot_fetches evs"

subsection \<open>Write-back (lines 135 to 146)\<close>

text \<open>
  \<^verbatim>\<open>strings.Split(s, sep)\<close> for a separator of one character: the substrings between
  the separators, one more than there are separators in \<open>s\<close> (so one empty string for
  the empty \<open>s\<close>).
\<close>

fun Split :: "string \<Rightarrow> char \<Rightarrow> string list" where
  "Split [] sep = [[]]"
| "Split (c # cs) sep =
     (if c = sep then [] # Split cs sep
      else (case Split cs sep of [] \<Rightarrow> [[c]] | p # ps \<Rightarrow> (c # p) # ps))"

text \<open>
  A loop body either runs to its end or panics; a panic in \<^verbatim>\<open>main\<close> is not recovered
  and ends the process.
\<close>

datatype completion = Normal | Panicked

text \<open>A \<^verbatim>\<open>for ... range\<close> loop over a sequence: it stops where its body panics.\<close>

fun for_range :: "('a \<Rightarrow> event list \<times> completion) \<Rightarrow> 'a list \<Rightarrow> event list \<times> completion" where
  "for_range body [] = ([], Normal)"
| "for_range body (x # xs) =
     (case body x of
        (evs, Panicked) \<Rightarrow> (evs, Panicked)
      | (evs, Normal) \<Rightarrow> (case for_range body xs of (evs', c) \<Rightarrow> (evs @ evs', c)))"

text \<open>
  Lines 139 to 143, the body of the innermost loop. \<^verbatim>\<open>parts[0]\<close> and \<^verbatim>\<open>parts[1]\<close>
  are read with no check of \<^verbatim>\<open>len(parts)\<close>: with fewer than two parts the index
  expression panics before the call.
\<close>

definition update_pool ::
  "(string \<Rightarrow> string \<Rightarrow> string \<Rightarrow> error option) \<Rightarrow> string \<Rightarrow> TargetPool \<Rightarrow> event list \<times> completion" where
  "update_pool w fqdn tp =
     (case Split (Name tp) (CHR ''_'') of
        p0 # p1 # _ \<Rightarrow>
          (Call_UpdateServiceFqdn p0 p1 fqdn #
             (case w p0 p1 fqdn of
                None \<Rightarrow> []
              | Some err \<Rightarrow> [Errorf ''Failed to update service FQDN: %v'' err]),
           Normal)
      | _ \<Rightarrow> ([], Panicked))"

definition write_back ::
  "(string \<Rightarrow> string \<Rightarrow> string \<Rightarrow> error option) \<Rightarrow> (string \<times> LBConfig) list \<Rightarrow> event list \<times> completion" where
  "write_back w updatedFqdn =
     for_range
       (\<lambda>(fqdn, config).
          for_range
            (\<lambda>fe. for_range (update_pool w fqdn) (elems (TargetPools fe)))
            (elems (Frontends config)))
       updatedFqdn"

subsection \<open>One tick (lines 97 to 153)\<close>

text \<open>
  Lines 113 to 153, given the flags \<open>update\<close> and \<open>updateForced\<close>; \<open>s\<close> holds the
  variables after the version check. The result is the trace and the variables after
  the tick, or \<open>None\<close> when the tick panicked.
\<close>

definition reconcile :: "env \<Rightarrow> state \<Rightarrow> bool \<Rightarrow> bool \<Rightarrow> event list \<times> state option" where
  "reconcile e s update updateForced =
     (if update \<or> updateForced then
        (case GetMetadataLBConfigs e of
           Inl err \<Rightarrow>
             ([Call_GetMetadataLBConfigs,
               Errorf ''Failed to get LB configs from metadata: %v'' err], Some s)
         | Inr metadataLBConfigs \<Rightarrow>
             (if \<not> DeepEqual metadataLBConfigs (metadataLBConfigsCached s) \<or> updateForced then
                (case UpdateProviderLBConfigs e metadataLBConfigs of
                   (updatedFqdn, err) \<Rightarrow>
                     (case write_back (UpdateServiceFqdn e) updatedFqdn of
                        (wevs, c) \<Rightarrow>
                          ([Call_GetMetadataLBConfigs, Debugf ''LB configs from metadata: %v'',
                            Call_UpdateProviderLBConfigs metadataLBConfigs] @
                           (case err of
                              None \<Rightarrow> []
                            | Some er \<Rightarrow> [Errorf ''Failed to update provider: %v'' er]) @
                           wevs,
                           (case c of
                              Panicked \<Rightarrow> None
                            | Normal \<Rightarrow>
                                Some (s\<lparr>metadataLBConfigsCached := metadataLBConfigs,
                                        lastUpdated := now_done e\<rparr>)))))
              else
                ([Call_GetMetadataLBConfigs, Debugf ''LB configs from metadata: %v'',
                  Debugf ''LB configs from metadata did not change''], Some s)))
      else ([], Some s))"

text \<open>
  Lines 97 to 111, the version check: the log lines, the variables after it and the
  flags \<open>update\<close> and \<open>updateForced\<close>.
\<close>

definition check_version :: "env \<Rightarrow> state \<Rightarrow> event list \<times> state \<times> bool \<times> bool" where
  "check_version e s =
     (case GetVersion e of
        Inl err \<Rightarrow>
          ([Call_GetVersion, Errorf ''Failed to get metadata version: %v'' err], s, False, False)
      | Inr newVersion \<Rightarrow>
          (if version s \<noteq> newVersion then
             ([Call_GetVersion, Debugf ''Metadata version changed. Old: %s New: %s.''],
              s\<lparr>version := newVersion\<rparr>, True, False)
           else if force_due (now_check e) (lastUpdated s) then
             ([Call_GetVersion,
               Debugf ''Executing force update as metadata version hasn't changed in: %d minutes''],
              s, False, True)
           else ([Call_GetVersion], s, False, False)))"

definition updateForced :: "env \<Rightarrow> state \<Rightarrow> bool" where
  "updateForced e s = snd (snd (snd (check_version e s)))"

text \<open>The body of the loop: the version check, then the rest of the tick.\<close>

definition tick :: "env \<Rightarrow> state \<Rightarrow> event list \<times> state option" where
  "tick e s =
     (case check_version e s of
        (evs, s1, update, forced) \<Rightarrow>
          (case reconcile e s1 update forced of (evs', r) \<Rightarrow> (evs @ evs', r)))"

text \<open>
  The loop over the ticks of the ticker, one \<open>env\<close> for each tick: the traces of the
  ticks one after the other, ended by the first tick that panics.
\<close>

fun run :: "env list \<Rightarrow> state \<Rightarrow> event list \<times> state option" where
  "run [] s = ([], Some s)"
| "run (e # es) s =
     (case tick e s of
        (evs, None) \<Rightarrow> (evs, None)
      | (evs, Some s') \<Rightarrow> (case run es s' of (evs', r) \<Rightarrow> (evs @ evs', r)))"

subsection \<open>Notions the properties are stated with\<close>

text \<open>
  The target pools of an outcome in the order write-back visits them, each with the
  FQDN of its entry.
\<close>

definition pools_of :: "(string \<times> LBConfig) list \<Rightarrow> (string \<times> string) list" where
  "pools_of updatedFqdn =
     concat (map (\<lambda>(fqdn, config).
       concat (map (\<lambda>fe. map (\<lambda>tp. (fqdn, Name tp)) (elems (TargetPools fe)))
         (elems (Frontends config)))) updatedFqdn)"

definition segments :: "string \<Rightarrow> string list" where
  "segments name = Split name (CHR ''_'')"

text \<open>
  A run of ticks is flapping from \<open>s\<close> when every tick fetches a version that differs
  from the version marker the tick starts with, and a snapshot deeply equal to the cache.
\<close>

fun flapping :: "state \<Rightarrow> env list \<Rightarrow> bool" where
  "flapping s [] = True"
| "flapping s (e # es) =
     (case GetVersion e of
        Inl err \<Rightarrow> False
      | Inr v \<Rightarrow>
          v \<noteq> version s \<and>
          (case GetMetadataLBConfigs e of
             Inl err \<Rightarrow> False
           | Inr cfgs \<Rightarrow> DeepEqual cfgs (metadataLBConfigsCached s)) \<and>
          flapping (s\<lparr>version := v\<rparr>) es)"

subsection \<open>Concrete inputs\<close>

definition pool :: "string \<Rightarrow> TargetPool" where
  "pool n = \<lparr>Name = n\<rparr>"

definition config_of :: "string list \<Rightarrow> LBConfig" where
  "config_of names = \<lparr>Frontends = Slice [\<lparr>TargetPools = Slice (map pool names)\<rparr>]\<rparr>"

definition snapshot1 :: Snapshot where
  "snapshot1 = GoMap (fmupd ''lb1'' (config_of [''svcA_stackX_envY'']) fmempty)"

definition outcome1 :: "(string \<times> LBConfig) list" where
  "outcome1 = [(''lb1.example.com'', config_of [''svcA_stackX_envY''])]"

text \<open>Pool names of two, three and four segments, and one of a single segment.\<close>

definition outcome_mixed :: "(string \<times> LBConfig) list" where
  "outcome_mixed =
     [(''lb1.example.com'', config_of [''svcA_stackX'', ''svcA_stackX_envY'', ''a_b_c_d''])]"

definition outcome_short :: "(string \<times> LBConfig) list" where
  "outcome_short = [(''lb1.example.com'', config_of [''web'', ''svcA_stackX_envY''])]"

definition writer_ok :: "string \<Rightarrow> string \<Rightarrow> string \<Rightarrow> error option" where
  "writer_ok a b fqdn = None"

text \<open>A Cattle client that fails for the service \<open>svcA\<close>.\<close>

definition writer_failing :: "string \<Rightarrow> string \<Rightarrow> string \<Rightarrow> error option" where
  "writer_failing a b fqdn = (if a = ''svcA'' then Some ''registry unavailable'' else None)"

text \<open>
  A tick's collaborators: the version and the snapshot the metadata client returns, the
  outcome and the error the provider dispatch returns, and the two clock readings.
\<close>

definition env_of ::
  "string \<Rightarrow> error + Snapshot \<Rightarrow> (string \<times> LBConfig) list \<Rightarrow> error option \<Rightarrow> time \<Rightarrow> time \<Rightarrow> env" where
  "env_of v snap out err t1 t2 =
     \<lparr>GetVersion = Inr v, GetMetadataLBConfigs = snap,
      UpdateProviderLBConfigs = (\<lambda>cfgs. (out, err)),
      UpdateServiceFqdn = writer_ok, now_check = t1, now_done = t2\<rparr>"

definition state_of :: "string \<Rightarrow> time \<Rightarrow> Snapshot \<Rightarrow> state" where
  "state_of v t c = \<lparr>version = v, lastUpdated = t, metadataLBConfigsCached = c\<rparr>"

text \<open>The variables at time 0 with version \<open>v1\<close>: the cache holds \<open>snapshot1\<close>, or is empty.\<close>

definition state1 :: state where
  "state1 = state_of ''v1'' 0 snapshot1"

definition state0 :: state where
  "state0 = state_of ''v1'' 0 (GoMap fmempty)"

text \<open>Two minutes later: a new version, the same snapshot.\<close>

definition env_flap :: env where
  "env_flap = env_of ''v2'' (Inr snapshot1) outcome1 None 120000000000 120000000001"

text \<open>One minute later: the same version, the same snapshot.\<close>

definition env_same :: env where
  "env_same = env_of ''v1'' (Inr snapshot1) outcome1 None 60000000000 60000000005"

text \<open>A new version and a new snapshot; the dispatch fails or succeeds.\<close>

definition env_err :: env where
  "env_err = env_of ''v2'' (Inr snapshot1) outcome1 (Some ''provider failed'') 5 7"

definition env_new :: env where
  "env_new = env_of ''v2'' (Inr snapshot1) outcome1 None 5 7"

text \<open>A new version; the snapshot fetch fails.\<close>

definition env_nofetch :: env where
  "env_nofetch = env_of ''v2'' (Inl ''metadata unavailable'') outcome1 None 5 7"

text \<open>The first answers of a metadata service: no load balancer, or one.\<close>

definition env_empty :: env where
  "env_empty = env_of ''v1'' (Inr (GoMap fmempty)) [] None 5 7"

definition env_first :: env where
  "env_first = env_of ''v1'' (Inr snapshot1) outcome1 None 5 7"

text \<open>Three ticks, a minute apart, each with another version and the same snapshot.\<close>

definition flap_run :: "env list" where
  "flap_run =
     [env_of ''v2'' (Inr snapshot1) outcome1 None 60000000000 60000000001,
      env_of ''v1'' (Inr snapshot1) outcome1 None 120000000000 120000000001,
      env_of ''v2'' (Inr snapshot1) outcome1 None 180000000000 180000000001]"




section \<open>Properties\<close>

lemmas tick_defs = tick_def check_version_def reconcile_def

lemmas eval_defs =
  write_back_def update_pool_def DeepEqual_def force_due_def Minute_def
  forceUpdateInterval_def

subsection \<open>Traces\<close>

lemma writer_calls_append: "writer_calls (xs @ ys) = writer_calls xs @ writer_calls ys"
  by (induction xs rule: writer_calls.induct) auto

lemma provider_calls_append:
  "provider_calls (xs @ ys) = provider_calls xs @ provider_calls ys"
  by (induction xs rule: provider_calls.induct) auto

lemma snapshot_fetches_append:
  "snapshot_fetches (xs @ ys) = snapshot_fetches xs + snapshot_fetches ys"
  by (induction xs rule: snapshot_fetches.induct) auto

subsection \<open>The write-back loops\<close>

lemma Split_nonempty: "Split s sep \<noteq> []"
  by (induction s) (auto split: list.splits)

lemma update_pool_ok:
  assumes "2 \<le> length (segments (Name tp))"
  shows "update_pool w fqdn tp =
    (Call_UpdateServiceFqdn (segments (Name tp) ! 0) (segments (Name tp) ! 1) fqdn #
       (case w (segments (Name tp) ! 0) (segments (Name tp) ! 1) fqdn of
          None \<Rightarrow> []
        | Some err \<Rightarrow> [Errorf ''Failed to update service FQDN: %v'' err]), Normal)"
proof -
  from assms obtain p0 p1 ps where "Split (Name tp) (CHR ''_'') = p0 # p1 # ps"
    by (cases "Split (Name tp) (CHR ''_'')"; cases "tl (Split (Name tp) (CHR ''_''))")
       (auto simp: segments_def)
  then show ?thesis by (simp add: update_pool_def segments_def)
qed

lemma update_pool_panics:
  assumes "length (segments (Name tp)) < 2"
  shows "update_pool w fqdn tp = ([], Panicked)"
  using assms by (auto simp: update_pool_def segments_def split: list.splits)

lemma provider_calls_update_pool: "provider_calls (fst (update_pool w fqdn tp)) = []"
  by (auto simp add: update_pool_def split: option.splits list.splits)

lemma snapshot_fetches_update_pool: "snapshot_fetches (fst (update_pool w fqdn tp)) = 0"
  by (auto simp add: update_pool_def split: option.splits list.splits)

text \<open>A loop whose body never panics makes the calls of its iterations, in order.\<close>

lemma for_range_calls:
  assumes "\<forall>x\<in>set xs. snd (body x) = Normal \<and> writer_calls (fst (body x)) = f x"
  shows "snd (for_range body xs) = Normal \<and>
         writer_calls (fst (for_range body xs)) = concat (map f xs)"
  using assms
proof (induction xs)
  case Nil
  show ?case by simp
next
  case (Cons x xs)
  obtain evs where b: "body x = (evs, Normal)"
    using Cons.prems by (cases "body x") auto
  with Cons show ?case
    by (cases "for_range body xs") (simp add: writer_calls_append)
qed

lemma provider_calls_for_range:
  assumes "\<And>x. provider_calls (fst (body x)) = []"
  shows "provider_calls (fst (for_range body xs)) = []"
proof (induction xs)
  case Nil
  show ?case by simp
next
  case (Cons x xs)
  obtain evs c where b: "body x = (evs, c)" by (cases "body x")
  with assms [of x] have "provider_calls evs = []" by simp
  with Cons b show ?case
    by (cases c; cases "for_range body xs") (simp_all add: provider_calls_append)
qed

lemma snapshot_fetches_for_range:
  assumes "\<And>x. snapshot_fetches (fst (body x)) = 0"
  shows "snapshot_fetches (fst (for_range body xs)) = 0"
proof (induction xs)
  case Nil
  show ?case by simp
next
  case (Cons x xs)
  obtain evs c where b: "body x = (evs, c)" by (cases "body x")
  with assms [of x] have "snapshot_fetches evs = 0" by simp
  with Cons b show ?case
    by (cases c; cases "for_range body xs") (simp_all add: snapshot_fetches_append)
qed

lemma provider_calls_write_back: "provider_calls (fst (write_back w out)) = []"
  unfolding write_back_def
  by (intro provider_calls_for_range)
     (auto intro!: provider_calls_for_range simp: provider_calls_update_pool)

lemma snapshot_fetches_write_back: "snapshot_fetches (fst (write_back w out)) = 0"
  unfolding write_back_def
  by (intro snapshot_fetches_for_range)
     (auto intro!: snapshot_fetches_for_range simp: snapshot_fetches_update_pool)

lemma pools_of_mem:
  assumes "(fqdn, config) \<in> set out" and "fe \<in> set (elems (Frontends config))"
    and "tp \<in> set (elems (TargetPools fe))"
  shows "(fqdn, Name tp) \<in> set (pools_of out)"
  using assms unfolding pools_of_def by fastforce

text \<open>
  When every pool name of the outcome has at least two segments, the three loops run to
  their end and make one call for each pool, in the order of the loops.
\<close>

lemma write_back_calls:
  assumes "\<forall>(fqdn, name) \<in> set (pools_of out). 2 \<le> length (segments name)"
  shows "snd (write_back w out) = Normal \<and>
         writer_calls (fst (write_back w out)) =
           map (\<lambda>(fqdn, name). (segments name ! 0, segments name ! 1, fqdn)) (pools_of out)"
proof -
  let ?call = "\<lambda>fqdn tp. (segments (Name tp) ! 0, segments (Name tp) ! 1, fqdn)"
  let ?pools = "\<lambda>fqdn fe. for_range (update_pool w fqdn) (elems (TargetPools fe))"
  let ?fes = "\<lambda>(fqdn, config). for_range (?pools fqdn) (elems (Frontends config))"
  have seg: "2 \<le> length (segments (Name tp))"
    if "(fqdn, config) \<in> set out" "fe \<in> set (elems (Frontends config))"
      "tp \<in> set (elems (TargetPools fe))" for fqdn config fe tp
    using pools_of_mem [OF that] assms by auto
  have inner: "snd (?pools fqdn fe) = Normal \<and>
      writer_calls (fst (?pools fqdn fe)) = map (?call fqdn) (elems (TargetPools fe))"
    if "(fqdn, config) \<in> set out" "fe \<in> set (elems (Frontends config))" for fqdn config fe
  proof -
    have "\<forall>tp\<in>set (elems (TargetPools fe)). snd (update_pool w fqdn tp) = Normal \<and>
        writer_calls (fst (update_pool w fqdn tp)) = [?call fqdn tp]"
      using seg [OF that] by (simp add: update_pool_ok split: option.splits)
    from for_range_calls [OF this] show ?thesis by simp
  qed
  have middle: "snd (?fes (fqdn, config)) = Normal \<and>
      writer_calls (fst (?fes (fqdn, config))) =
        concat (map (\<lambda>fe. map (?call fqdn) (elems (TargetPools fe))) (elems (Frontends config)))"
    if "(fqdn, config) \<in> set out" for fqdn config
  proof -
    have "\<forall>fe\<in>set (elems (Frontends config)). snd (?pools fqdn fe) = Normal \<and>
        writer_calls (fst (?pools fqdn fe)) = map (?call fqdn) (elems (TargetPools fe))"
      using inner [OF that] by simp
    from for_range_calls [OF this] show ?thesis by simp
  qed
  have "\<forall>x\<in>set out. snd (?fes x) = Normal \<and>
      writer_calls (fst (?fes x)) =
        (case x of (fqdn, config) \<Rightarrow>
           concat (map (\<lambda>fe. map (?call fqdn) (elems (TargetPools fe)))
             (elems (Frontends config))))"
    using middle by auto
  from for_range_calls [OF this] show ?thesis
    by (simp add: write_back_def pools_of_def map_concat comp_def split_def)
qed

subsection \<open>A tick with a new version and an unchanged snapshot\<close>

lemma tick_new_version_same_snapshot:
  assumes "GetVersion e = Inr v"
    and "v \<noteq> version s"
    and "GetMetadataLBConfigs e = Inr cfgs"
    and "DeepEqual cfgs (metadataLBConfigsCached s)"
  shows "tick e s =
    ([Call_GetVersion, Debugf ''Metadata version changed. Old: %s New: %s.'',
      Call_GetMetadataLBConfigs, Debugf ''LB configs from metadata: %v'',
      Debugf ''LB configs from metadata did not change''],
     Some (s\<lparr>version := v\<rparr>))"
  using assms by (auto simp add: tick_defs)

lemma flapping_run:
  "flapping s es \<Longrightarrow>
     provider_calls (fst (run es s)) = [] \<and>
     (\<exists>s'. snd (run es s) = Some s' \<and>
        metadataLBConfigsCached s' = metadataLBConfigsCached s \<and>
        lastUpdated s' = lastUpdated s)"
proof (induction es arbitrary: s)
  case Nil
  show ?case by simp
next
  case (Cons e es)
  from Cons.prems obtain v cfgs where
    v: "GetVersion e = Inr v" "v \<noteq> version s" and
    c: "GetMetadataLBConfigs e = Inr cfgs" "DeepEqual cfgs (metadataLBConfigsCached s)" and
    f: "flapping (s\<lparr>version := v\<rparr>) es"
    by (auto split: sum.splits)
  note t = tick_new_version_same_snapshot [OF v c]
  from Cons.IH [OF f] obtain s' where
    "provider_calls (fst (run es (s\<lparr>version := v\<rparr>))) = []"
    "snd (run es (s\<lparr>version := v\<rparr>)) = Some s'"
    "metadataLBConfigsCached s' = metadataLBConfigsCached s"
    "lastUpdated s' = lastUpdated s"
    by auto
  with t show ?case
    by (simp add: case_prod_beta provider_calls_append)
qed

subsection \<open>The claims\<close>

text \<open>
  C1, as the code has it: write-back never checks that a target-pool name has exactly
  three segments. When every target-pool name of the outcome splits on \<open>_\<close> into at
  least two segments (two, three or more), the write-back loops run to their end without
  a panic and call the Cattle client once for every target pool, in the order of the
  loops, with the first segment, the second segment and the FQDN of the entry, whatever
  the client answers to any of the calls. A name of two or of more than three segments
  is written back like one of three; it is not skipped.
\<close>

theorem write_back_two_segments:
  assumes "\<forall>(fqdn, name) \<in> set (pools_of out). 2 \<le> length (segments name)"
  shows "snd (write_back w out) = Normal \<and>
         writer_calls (fst (write_back w out)) =
           map (\<lambda>(fqdn, name). (segments name ! 0, segments name ! 1, fqdn)) (pools_of out)"
proof -
  from assms have "snd (write_back w out) = Normal"
    by (simp add: write_back_calls)
  moreover from assms have "writer_calls (fst (write_back w out)) =
      map (\<lambda>(fqdn, name). (segments name ! 0, segments name ! 1, fqdn)) (pools_of out)"
    by (simp add: write_back_calls)
  ultimately show ?thesis by simp
qed

text \<open>
  At an outcome with names of two, three and four segments and a Cattle client that
  fails for each of the first two calls, all three calls are made.
\<close>

theorem write_back_two_segments_witness:
  "map (\<lambda>(fqdn, name). length (segments name)) (pools_of outcome_mixed) = [2, 3, 4] \<and>
   snd (write_back writer_failing outcome_mixed) = Normal \<and>
   writer_calls (fst (write_back writer_failing outcome_mixed)) =
     [(''svcA'', ''stackX'', ''lb1.example.com''), (''svcA'', ''stackX'', ''lb1.example.com''),
      (''a'', ''b'', ''lb1.example.com'')]"
  using write_back_two_segments [of outcome_mixed writer_failing]
  by (simp add: outcome_mixed_def config_of_def pool_def writer_failing_def pools_of_def
      segments_def)

text \<open>
  C1 as stated fails. The name \<open>svcA_stackX\<close> has two segments and is written back,
  not skipped. The name \<open>web\<close> has one segment: the index expression \<^verbatim>\<open>parts[1]\<close>
  panics, and the well-formed pool after it gets no call.
\<close>

theorem skip_malformed_counterexample:
  "writer_calls (fst (write_back writer_ok [(''lb1.example.com'', config_of [''svcA_stackX''])])) =
     [(''svcA'', ''stackX'', ''lb1.example.com'')] \<and>
   write_back writer_ok outcome_short = ([], Panicked)"
  by (simp add: outcome_short_def config_of_def pool_def writer_ok_def eval_defs)

text \<open>
  C2: on a tick that fetches a version other than the last-seen one and a snapshot deeply
  equal to the cache, the provider dispatch is not called, the Cattle client is not
  called, and the tick ends with the cache (and the timestamp) as before; only the
  version marker has changed. This holds whether or not the force-update interval has
  elapsed.
\<close>

theorem version_change_gate:
  assumes "GetVersion e = Inr v"
    and "v \<noteq> version s"
    and "GetMetadataLBConfigs e = Inr cfgs"
    and "DeepEqual cfgs (metadataLBConfigsCached s)"
  shows "provider_calls (fst (tick e s)) = [] \<and> writer_calls (fst (tick e s)) = [] \<and>
         snd (tick e s) = Some (s\<lparr>version := v\<rparr>) \<and>
         metadataLBConfigsCached (s\<lparr>version := v\<rparr>) = metadataLBConfigsCached s"
proof -
  let ?trace =
    "[Call_GetVersion, Debugf ''Metadata version changed. Old: %s New: %s.'',
      Call_GetMetadataLBConfigs, Debugf ''LB configs from metadata: %v'',
      Debugf ''LB configs from metadata did not change'']"
  have t: "tick e s = (?trace, Some (s\<lparr>version := v\<rparr>))"
    by (rule tick_new_version_same_snapshot [OF assms])
  have "provider_calls ?trace = []" and "writer_calls ?trace = []"
    by simp_all
  with t show ?thesis by simp
qed

theorem version_change_gate_witness:
  "GetVersion env_flap = Inr ''v2'' \<and> ''v2'' \<noteq> version state1 \<and>
   GetMetadataLBConfigs env_flap = Inr snapshot1 \<and>
   DeepEqual snapshot1 (metadataLBConfigsCached state1) \<and>
   provider_calls (fst (tick env_flap state1)) = [] \<and>
   writer_calls (fst (tick env_flap state1)) = [] \<and>
   snd (tick env_flap state1) = Some (state_of ''v2'' 0 snapshot1)"
  using version_change_gate [of env_flap "''v2''" state1 snapshot1]
  by (simp add: env_flap_def state1_def env_of_def state_of_def DeepEqual_def)

text \<open>
  C3: on a tick that fetches the last-seen version when the time since the
  last-reconciliation timestamp is at least the force-update interval, the snapshot is
  fetched, and when the fetch returns a snapshot the provider dispatch is called with it,
  also when it is deeply equal to the cache. (When the fetch fails there is no snapshot
  and no dispatch.)
\<close>

theorem forced_update:
  assumes "GetVersion e = Inr (version s)"
    and "force_due (now_check e) (lastUpdated s)"
  shows "snapshot_fetches (fst (tick e s)) = 1 \<and>
         (case GetMetadataLBConfigs e of
            Inl err \<Rightarrow> provider_calls (fst (tick e s)) = []
          | Inr cfgs \<Rightarrow> provider_calls (fst (tick e s)) = [cfgs])"
proof (cases "GetMetadataLBConfigs e")
  case (Inl err)
  with assms show ?thesis by (simp add: tick_defs)
next
  case (Inr cfgs)
  with assms show ?thesis
    by (simp add: tick_defs case_prod_beta provider_calls_append provider_calls_write_back
        snapshot_fetches_append snapshot_fetches_write_back split: option.splits)
qed

theorem forced_update_witness:
  "GetVersion env_same = Inr (version state1) \<and>
   force_due (now_check env_same) (lastUpdated state1) \<and>
   GetMetadataLBConfigs env_same = Inr snapshot1 \<and>
   DeepEqual snapshot1 (metadataLBConfigsCached state1) \<and>
   snapshot_fetches (fst (tick env_same state1)) = 1 \<and>
   provider_calls (fst (tick env_same state1)) = [snapshot1]"
  using forced_update [of env_same state1]
  by (simp add: env_same_def state1_def env_of_def state_of_def DeepEqual_def force_due_def
      Minute_def forceUpdateInterval_def)




text \<open>
  C5, as the code has it: the last-reconciliation timestamp is set at the end of every
  pass that called the provider dispatch and whose write-back ran to its end, whether the
  dispatch returned an error or not; a tick that does not call the provider dispatch
  leaves it as it is.
\<close>

theorem lastUpdated_after_tick:
  assumes "snd (tick e s) = Some s'"
  shows "lastUpdated s' =
           (if provider_calls (fst (tick e s)) = [] then lastUpdated s else now_done e)"
proof (cases "GetVersion e")
  case (Inl err)
  with assms show ?thesis by (auto simp add: tick_defs)
next
  case (Inr v)
  with assms show ?thesis
    by (auto simp add: tick_defs case_prod_beta provider_calls_append
        split: sum.splits if_splits completion.splits)
qed

theorem lastUpdated_after_tick_witness:
  "snd (tick env_err state0) = Some (state_of ''v2'' 7 snapshot1) \<and>
   provider_calls (fst (tick env_err state0)) = [snapshot1] \<and>
   lastUpdated (state_of ''v2'' 7 snapshot1) = now_done env_err"
  using lastUpdated_after_tick [of env_err state0 "state_of ''v2'' 7 snapshot1"]
  by (simp add: env_err_def state0_def env_of_def state_of_def snapshot1_def outcome1_def
      config_of_def pool_def writer_ok_def tick_defs eval_defs)

text \<open>
  C5 as stated fails: a pass whose dispatch returns an error moves the timestamp from 0
  to the time at its end.
\<close>

theorem timestamp_on_error_counterexample:
  "snd (UpdateProviderLBConfigs env_err snapshot1) = Some ''provider failed'' \<and>
   lastUpdated state0 = 0 \<and>
   map_option lastUpdated (snd (tick env_err state0)) = Some 7"
  by (simp add: env_err_def state0_def env_of_def state_of_def snapshot1_def outcome1_def
      config_of_def pool_def writer_ok_def tick_defs eval_defs)

text \<open>
  C6, as the code has it: on a tick that fetches a version other than the last-seen one,
  the version check records the new version and leaves the last-reconciliation timestamp
  as it is. The timestamp is set only at the end of the pass, and only when the snapshot
  fetch succeeds, the snapshot is not deeply equal to the cache and write-back runs to
  its end; when the snapshot fetch fails or the snapshot is deeply equal to the cache,
  the tick ends with the new version recorded and the timestamp unchanged.
\<close>

theorem version_change_tick:
  assumes "GetVersion e = Inr v"
    and "v \<noteq> version s"
  shows "fst (snd (check_version e s)) = s\<lparr>version := v\<rparr> \<and>
         snd (tick e s) =
           (case GetMetadataLBConfigs e of
              Inl err \<Rightarrow> Some (s\<lparr>version := v\<rparr>)
            | Inr cfgs \<Rightarrow>
                if DeepEqual cfgs (metadataLBConfigsCached s) then Some (s\<lparr>version := v\<rparr>)
                else
                  (case snd (write_back (UpdateServiceFqdn e)
                               (fst (UpdateProviderLBConfigs e cfgs))) of
                     Normal \<Rightarrow>
                       Some (s\<lparr>version := v, metadataLBConfigsCached := cfgs,
                               lastUpdated := now_done e\<rparr>)
                   | Panicked \<Rightarrow> None))"
proof
  from assms show "fst (snd (check_version e s)) = s\<lparr>version := v\<rparr>"
    by (auto simp add: check_version_def)
  from assms show "snd (tick e s) =
           (case GetMetadataLBConfigs e of
              Inl err \<Rightarrow> Some (s\<lparr>version := v\<rparr>)
            | Inr cfgs \<Rightarrow>
                if DeepEqual cfgs (metadataLBConfigsCached s) then Some (s\<lparr>version := v\<rparr>)
                else
                  (case snd (write_back (UpdateServiceFqdn e)
                               (fst (UpdateProviderLBConfigs e cfgs))) of
                     Normal \<Rightarrow>
                       Some (s\<lparr>version := v, metadataLBConfigsCached := cfgs,
                               lastUpdated := now_done e\<rparr>)
                   | Panicked \<Rightarrow> None))"
    by (auto simp add: tick_defs case_prod_beta split: sum.splits completion.splits)
qed

theorem version_change_tick_witness:
  "GetVersion env_new = Inr ''v2'' \<and> ''v2'' \<noteq> version state0 \<and>
   fst (snd (check_version env_new state0)) = state_of ''v2'' 0 (GoMap fmempty) \<and>
   snd (tick env_new state0) = Some (state_of ''v2'' 7 snapshot1)"
  using version_change_tick [of env_new "''v2''" state0]
  by (simp add: env_new_def state0_def env_of_def state_of_def snapshot1_def outcome1_def
      config_of_def pool_def writer_ok_def eval_defs)

text \<open>
  C6 as stated fails: two minutes after the last reconciliation at time 0, a tick with a
  new version and a snapshot equal to the cache records the version and ends with the
  timestamp still 0.
\<close>

theorem timer_reset_counterexample:
  "GetVersion env_flap = Inr ''v2'' \<and> version state1 = ''v1'' \<and>
   lastUpdated state1 = 0 \<and> now_check env_flap = 120000000000 \<and>
   snd (tick env_flap state1) = Some (state_of ''v2'' 0 snapshot1)"
  by (simp add: env_flap_def state1_def env_of_def state_of_def tick_defs DeepEqual_def)

text \<open>
  C7: on a tick whose version fetch succeeds with the last-seen version while the
  force-update interval has not elapsed, the only call is the version fetch: no snapshot
  fetch, no provider dispatch, no write-back call; and the cache, the version marker and
  the last-reconciliation timestamp are the same after the tick.
\<close>

theorem noop_tick:
  assumes "GetVersion e = Inr (version s)"
    and "\<not> force_due (now_check e) (lastUpdated s)"
  shows "tick e s = ([Call_GetVersion], Some s)"
  using assms by (simp add: tick_defs)

theorem noop_tick_witness:
  "GetVersion (env_of ''v1'' (Inr snapshot1) outcome1 None 5 6) =
     Inr (version (state_of ''v1'' 0 snapshot1)) \<and>
   \<not> force_due (now_check (env_of ''v1'' (Inr snapshot1) outcome1 None 5 6))
       (lastUpdated (state_of ''v1'' 0 snapshot1)) \<and>
   tick (env_of ''v1'' (Inr snapshot1) outcome1 None 5 6) (state_of ''v1'' 0 snapshot1) =
     ([Call_GetVersion], Some (state_of ''v1'' 0 snapshot1))"
  using noop_tick [of "env_of ''v1'' (Inr snapshot1) outcome1 None 5 6" "state_of ''v1'' 0 snapshot1"]
  by (simp add: env_of_def state_of_def force_due_def Minute_def forceUpdateInterval_def)

text \<open>
  C8: when the snapshot fetch of a tick fails, the tick ends there: the provider dispatch
  is not called, the Cattle client is not called, and the cache and the timestamp are as
  before; the version marker is the fetched version, so it stays advanced when the
  version had changed on this tick.
\<close>

theorem snapshot_fetch_failure:
  assumes "GetVersion e = Inr v"
    and "v \<noteq> version s \<or> force_due (now_check e) (lastUpdated s)"
    and "GetMetadataLBConfigs e = Inl err"
  shows "provider_calls (fst (tick e s)) = [] \<and> writer_calls (fst (tick e s)) = [] \<and>
         snd (tick e s) = Some (s\<lparr>version := v\<rparr>)"
proof (cases "v = version s")
  case True
  with assms show ?thesis by (simp add: tick_defs)
next
  case False
  with assms show ?thesis by (simp add: tick_defs)
qed

theorem snapshot_fetch_failure_witness:
  "GetVersion env_nofetch = Inr ''v2'' \<and> ''v2'' \<noteq> version state1 \<and>
   GetMetadataLBConfigs env_nofetch = Inl ''metadata unavailable'' \<and>
   provider_calls (fst (tick env_nofetch state1)) = [] \<and>
   writer_calls (fst (tick env_nofetch state1)) = [] \<and>
   snd (tick env_nofetch state1) = Some (state_of ''v2'' 0 snapshot1)"
  using snapshot_fetch_failure [of env_nofetch "''v2''" state1 "''metadata unavailable''"]
  by (simp add: env_nofetch_def state1_def env_of_def state_of_def)

text \<open>
  C9, as the code has it: on the first tick after the start, if the version fetch
  succeeds with a version other than \<open>init\<close> (or with \<open>init\<close> once the force-update
  interval has elapsed since the start), the snapshot is fetched; and if that fetch
  succeeds, the provider dispatch is called with the fetched snapshot, unless the fetched
  version differs from \<open>init\<close> and the snapshot is deeply equal to the empty map the
  cache starts with: then the tick ends without a dispatch.
\<close>

theorem first_tick:
  assumes "GetVersion e = Inr v"
    and "GetMetadataLBConfigs e = Inr cfgs"
    and "v \<noteq> ''init'' \<or> force_due (now_check e) t0"
  shows "snapshot_fetches (fst (tick e (init_state t0))) = 1 \<and>
         provider_calls (fst (tick e (init_state t0))) =
           (if v \<noteq> ''init'' \<and> DeepEqual cfgs (GoMap fmempty) then [] else [cfgs])"
proof (cases "v = ''init''")
  case True
  with assms have "force_due (now_check e) t0" by simp
  with True assms(1,2) show ?thesis
    by (simp add: tick_defs init_state_def case_prod_beta provider_calls_append
        provider_calls_write_back snapshot_fetches_append snapshot_fetches_write_back
        split: option.splits)
next
  case False
  with assms(1,2) show ?thesis
    by (auto simp add: tick_defs init_state_def case_prod_beta provider_calls_append
        provider_calls_write_back snapshot_fetches_append snapshot_fetches_write_back
        split: option.splits)
qed

theorem first_tick_witness:
  "GetVersion env_first = Inr ''v1'' \<and>
   GetMetadataLBConfigs env_first = Inr snapshot1 \<and>
   ''v1'' \<noteq> ''init'' \<and>
   \<not> DeepEqual snapshot1 (GoMap fmempty) \<and>
   snapshot_fetches (fst (tick env_first (init_state 0))) = 1 \<and>
   provider_calls (fst (tick env_first (init_state 0))) = [snapshot1]"
  using first_tick [of env_first "''v1''" snapshot1 0]
  by (simp add: env_first_def env_of_def snapshot1_def DeepEqual_def)

text \<open>
  C9 as stated fails: when the metadata service returns a first version and an empty map
  of load balancers, the first tick fetches the snapshot and does not call the provider
  dispatch.
\<close>

theorem first_tick_counterexample:
  "GetVersion env_empty = Inr ''v1'' \<and>
   GetMetadataLBConfigs env_empty = Inr (GoMap fmempty) \<and>
   snapshot_fetches (fst (tick env_empty (init_state 0))) = 1 \<and>
   provider_calls (fst (tick env_empty (init_state 0))) = []"
  by (simp add: env_empty_def env_of_def init_state_def tick_defs DeepEqual_def)

text \<open>
  C10: the flag \<open>updateForced\<close> is set only on a tick whose version fetch succeeds with
  the last-seen version (and then only when the force-update interval has elapsed). So
  over any run of ticks that each fetch a version other than the one before and a
  snapshot deeply equal to the cache, the provider dispatch is never called, whatever
  the clock reads.
\<close>

theorem forced_only_on_same_version:
  "(updateForced e s \<longrightarrow>
      GetVersion e = Inr (version s) \<and> force_due (now_check e) (lastUpdated s)) \<and>
   (flapping s es \<longrightarrow> provider_calls (fst (run es s)) = [])"
proof
  show "updateForced e s \<longrightarrow>
      GetVersion e = Inr (version s) \<and> force_due (now_check e) (lastUpdated s)"
    by (auto simp add: updateForced_def check_version_def split: sum.splits if_splits)
  show "flapping s es \<longrightarrow> provider_calls (fst (run es s)) = []"
    using flapping_run by blast
qed

theorem forced_only_on_same_version_witness:
  "updateForced env_same state1 \<and>
   GetVersion env_same = Inr (version state1) \<and>
   force_due (now_check env_same) (lastUpdated state1) \<and>
   flapping state1 flap_run \<and>
   provider_calls (fst (run flap_run state1)) = []"
  using forced_only_on_same_version [of env_same state1 flap_run]
  by (simp add: env_same_def state1_def flap_run_def env_of_def state_of_def
      updateForced_def check_version_def DeepEqual_def force_due_def Minute_def
      forceUpdateInterval_def)

end
